theory Spec2Isabelle
  imports Main "HOL-Library.Multiset" "HOL-Library.Sublist" "HOL-Library.Monad_Syntax"
begin

section \<open>The food listing server (server/server.js)\<close>

text \<open>
  The model follows the listing routes of \<^verbatim>\<open>server.js\<close> (\<^verbatim>\<open>foodRouter\<close>) after the
  \<^verbatim>\<open>protect\<close> middleware has run: a handler receives the authenticated user
  \<^verbatim>\<open>req.user\<close>, the route parameter, the request body and the current time, and it
  returns the HTTP response together with the new state of the collection of listings
  and of the upload directory. Each handler runs to its end before the next one starts:
  requests are not interleaved.

  Times are milliseconds since the epoch (what a JavaScript \<^verbatim>\<open>Date\<close> compares by),
  and an \<^verbatim>\<open>ObjectId\<close> is a natural number. A string of the request stands for the
  JavaScript string it encodes. The \<^verbatim>\<open>updatedAt\<close> stamp that Mongoose keeps is
  left out. The routes that only read listings for a donor, a receiver or the admin
  (\<^verbatim>\<open>/mylistings\<close>, \<^verbatim>\<open>/myclaims\<close>, \<^verbatim>\<open>/api/admin\<close>) and the routes of users
  (\<^verbatim>\<open>/api/auth\<close>) do not change a listing and are not part of the model.
\<close>

subsection \<open>Data model\<close>

type_synonym oid = nat

datatype role = Donor | Receiver | Admin

text \<open>\<^verbatim>\<open>req.user\<close>: the fields of \<^verbatim>\<open>UserSchema\<close> that the listing routes read.\<close>

record user =
  user_id :: oid
  user_name :: string
  user_role :: role

text \<open>An element of \<^verbatim>\<open>claims\<close> in \<^verbatim>\<open>FoodListingSchema\<close>.\<close>

record claim =
  userId :: oid
  name :: string

text \<open>
  The JavaScript numbers that \<^verbatim>\<open>parseInt\<close> returns and that the schema stores in
  \<^verbatim>\<open>maxClaims\<close>: an integer or one of the two infinities (\<^verbatim>\<open>parseInt\<close> gives
  \<^verbatim>\<open>Infinity\<close> for a run of digits beyond the range of a double). They are compared as
  JavaScript and the database compare them. \<^verbatim>\<open>NaN\<close> is \<open>None\<close> where it can occur.
\<close>

datatype number = NegInfinity | Finite int | Infinity

instantiation number :: linorder
begin

fun less_eq_number :: "number \<Rightarrow> number \<Rightarrow> bool" where
  "less_eq_number NegInfinity y = True"
| "less_eq_number (Finite a) NegInfinity = False"
| "less_eq_number (Finite a) (Finite b) = (a \<le> b)"
| "less_eq_number (Finite a) Infinity = True"
| "less_eq_number Infinity NegInfinity = False"
| "less_eq_number Infinity (Finite b) = False"
| "less_eq_number Infinity Infinity = True"

definition less_number :: "number \<Rightarrow> number \<Rightarrow> bool" where
  "less_number x y = (x \<le> y \<and> \<not> y \<le> x)"

instance
proof
  fix x y z :: number
  show "x < y \<longleftrightarrow> x \<le> y \<and> \<not> y \<le> x" by (simp add: less_number_def)
  show "x \<le> x" by (cases x) simp_all
  show "x \<le> y \<Longrightarrow> y \<le> z \<Longrightarrow> x \<le> z" by (cases x; cases y; cases z) simp_all
  show "x \<le> y \<Longrightarrow> y \<le> x \<Longrightarrow> x = y" by (cases x; cases y) simp_all
  show "x \<le> y \<or> y \<le> x" by (cases x; cases y) auto
qed

end

text \<open>\<^verbatim>\<open>FoodListingSchema\<close>, with the document's \<^verbatim>\<open>_id\<close> and \<^verbatim>\<open>createdAt\<close>.\<close>

record listing =
  listing_id :: oid
  donor :: oid
  donorName :: string
  category :: string
  description :: string
  quantity :: string
  location :: string
  imageUrl :: string
  mfgTime :: int
  expiryTime :: int
  maxClaims :: number
  claims :: "claim list"
  createdAt :: int

text \<open>
  The collection of listings in insertion order, the paths of the files below the
  server's directory, and the next unused \<^verbatim>\<open>ObjectId\<close>.
\<close>

record state =
  listings :: "listing list"
  files :: "string list"
  nextId :: oid

definition init :: state where
  "init = \<lparr>listings = [], files = [], nextId = 0\<rparr>"

text \<open>
  What the handlers take from their surroundings: \<^verbatim>\<open>process.env.PORT\<close>; the cast of
  a request string to a \<^verbatim>\<open>Date\<close> that Mongoose performs for the two time fields
  (\<open>None\<close> when the cast fails); and JavaScript's built-in \<^verbatim>\<open>parseInt(s, 10)\<close>
  (\<open>None\<close> when it gives \<^verbatim>\<open>NaN\<close>). The built-in skips the white space of Unicode,
  reads a sign and the longest run of decimal digits, and rounds to a double; it is a
  parameter here, so that every property below holds for the function the runtime has.
\<close>

record env =
  env_PORT :: "string option"
  castDate :: "string \<Rightarrow> int option"
  parseInt :: "string \<Rightarrow> number option"

text \<open>\<^verbatim>\<open>const PORT = process.env.PORT || 3001\<close>: an unset or empty variable gives 3001.\<close>

definition PORT :: "env \<Rightarrow> string" where
  "PORT e = (case env_PORT e of None \<Rightarrow> ''3001'' | Some p \<Rightarrow> if p = [] then ''3001'' else p)"

text \<open>The fields the handlers destructure from \<^verbatim>\<open>req.body\<close>; \<open>None\<close> is \<^verbatim>\<open>undefined\<close>.\<close>

record req_body =
  body_description :: "string option"
  body_quantity :: "string option"
  body_location :: "string option"
  body_mfgTime :: "string option"
  body_expiryTime :: "string option"
  body_maxClaims :: "string option"
  body_category :: "string option"

text \<open>\<^verbatim>\<open>req.params.id\<close>: a string that is no \<^verbatim>\<open>ObjectId\<close> makes \<^verbatim>\<open>findById\<close> throw.\<close>

datatype param_id = Malformed | ObjectId oid

datatype json =
  Message string
  | ListingJson listing
  | ListingsJson "listing list"
  | ClaimedJson string listing

type_synonym response = "nat \<times> json"

subsection \<open>JavaScript helpers\<close>

definition startsWith :: "string \<Rightarrow> string \<Rightarrow> bool" where
  "startsWith s p = prefix p s"

text \<open>\<^verbatim>\<open>!v\<close> for a body field: \<^verbatim>\<open>undefined\<close> and the empty string are falsy.\<close>

definition falsy :: "string option \<Rightarrow> bool" where
  "falsy v = (case v of None \<Rightarrow> True | Some s \<Rightarrow> s = [])"

subsection \<open>Files\<close>

text \<open>\<^verbatim>\<open>deleteFile\<close>: only a path below \<^verbatim>\<open>/uploads/\<close> is unlinked.\<close>

definition deleteFile :: "string \<Rightarrow> state \<Rightarrow> state" where
  "deleteFile filePath s =
     (if filePath \<noteq> [] \<and> startsWith filePath ''/uploads/''
      then s\<lparr>files := removeAll filePath (files s)\<rparr> else s)"

text \<open>
  \<^verbatim>\<open>upload.single('image')\<close>: when the request carries an accepted image, the file is
  on disk under \<^verbatim>\<open>req.file.filename\<close> before the handler runs.
\<close>

definition upload_single :: "string option \<Rightarrow> state \<Rightarrow> state" where
  "upload_single file s =
     (case file of None \<Rightarrow> s | Some f \<Rightarrow> s\<lparr>files := (''/uploads/'' @ f) # files s\<rparr>)"

definition deleteUpload :: "string option \<Rightarrow> state \<Rightarrow> state" where
  "deleteUpload file s =
     (case file of None \<Rightarrow> s | Some f \<Rightarrow> deleteFile (''/uploads/'' @ f) s)"

subsection \<open>The collection\<close>

definition findById :: "oid \<Rightarrow> state \<Rightarrow> listing option" where
  "findById i s = find (\<lambda>l. listing_id l = i) (listings s)"

fun deleteOne :: "oid \<Rightarrow> listing list \<Rightarrow> listing list" where
  "deleteOne i [] = []"
| "deleteOne i (l # ls) = (if listing_id l = i then ls else l # deleteOne i ls)"

definition categories :: "string list" where
  "categories = [''Cooked Meal'', ''Groceries'', ''Fruits & Vegetables'', ''Bakery'',
                 ''Dairy'', ''Beverages'', ''Other'']"

definition placeholder :: string where
  "placeholder = ''https://placehold.co/600x400/a7a7a7/FFF?text=No+Image''"

text \<open>
  The validators of \<^verbatim>\<open>FoodListingSchema\<close> that \<^verbatim>\<open>save\<close> runs: required strings are
  not empty, the category is one of the enumeration, \<^verbatim>\<open>maxClaims\<close> is at least 1.
\<close>

definition validate :: "listing \<Rightarrow> bool" where
  "validate l =
     (donorName l \<noteq> [] \<and> category l \<in> set categories \<and> description l \<noteq> []
      \<and> quantity l \<noteq> [] \<and> location l \<noteq> [] \<and> Finite 1 \<le> maxClaims l)"

text \<open>\<^verbatim>\<open>save\<close> of a new document and of a document read by \<^verbatim>\<open>findById\<close>.\<close>

definition save_new :: "listing \<Rightarrow> state \<Rightarrow> state option" where
  "save_new l s =
     (if validate l
      then Some (s\<lparr>listings := listings s @ [l\<lparr>listing_id := nextId s\<rparr>], nextId := Suc (nextId s)\<rparr>)
      else None)"

definition save :: "listing \<Rightarrow> state \<Rightarrow> state option" where
  "save l s =
     (if validate l
      then Some (s\<lparr>listings := map (\<lambda>x. if listing_id x = listing_id l then l else x) (listings s)\<rparr>)
      else None)"

subsection \<open>transformImageUrl\<close>

definition transformImageUrl :: "env \<Rightarrow> listing \<Rightarrow> listing" where
  "transformImageUrl e l =
     (if imageUrl l \<noteq> [] \<and> startsWith (imageUrl l) ''/uploads/''
      then l\<lparr>imageUrl := ''http://localhost:'' @ PORT e @ imageUrl l\<rparr>
      else l)"

subsection \<open>PUT /api/food/:id/claim\<close>

definition alreadyClaimed :: "listing \<Rightarrow> user \<Rightarrow> bool" where
  "alreadyClaimed l u = list_ex (\<lambda>c. userId c = user_id u) (claims l)"

definition claim_listing :: "env \<Rightarrow> int \<Rightarrow> user \<Rightarrow> param_id \<Rightarrow> state \<Rightarrow> response \<times> state" where
  "claim_listing e now u pid s =
     (if user_role u \<noteq> Receiver then ((403, Message ''Only receivers can claim food.''), s)
      else case pid of
        Malformed \<Rightarrow> ((500, Message ''Server error''), s)
      | ObjectId i \<Rightarrow>
         (case findById i s of
            None \<Rightarrow> ((404, Message ''Listing not found''), s)
          | Some l \<Rightarrow>
             if expiryTime l < now then ((400, Message ''This listing has expired.''), s)
             else if maxClaims l \<le> Finite (int (length (claims l)))
               then ((400, Message ''This listing is fully claimed.''), s)
             else if alreadyClaimed l u
               then ((400, Message ''You have already claimed this listing.''), s)
             else
               (let updated = l\<lparr>claims := claims l @ [\<lparr>userId = user_id u, name = user_name u\<rparr>]\<rparr>
                in case save updated s of
                     None \<Rightarrow> ((500, Message ''Server error''), s)
                   | Some s' \<Rightarrow>
                       ((200, ClaimedJson ''Listing claimed successfully!''
                                (transformImageUrl e updated)), s'))))"

subsection \<open>POST /api/food\<close>

text \<open>
  \<^verbatim>\<open>new FoodListing({...})\<close> with the casts Mongoose applies to the body's strings. A
  required field that is missing, a time that is no date and a \<^verbatim>\<open>maxClaims\<close> that is
  \<^verbatim>\<open>NaN\<close> make \<^verbatim>\<open>save\<close> throw: there is no document then. The \<^verbatim>\<open>_id\<close> is given
  by \<open>save_new\<close>.
\<close>

definition new_listing :: "env \<Rightarrow> int \<Rightarrow> user \<Rightarrow> string option \<Rightarrow> req_body \<Rightarrow> listing option" where
  "new_listing e now u file b =
     do {
       d \<leftarrow> body_description b;
       q \<leftarrow> body_quantity b;
       loc \<leftarrow> body_location b;
       m \<leftarrow> Option.bind (body_mfgTime b) (castDate e);
       x \<leftarrow> Option.bind (body_expiryTime b) (castDate e);
       n \<leftarrow> Option.bind (body_maxClaims b) (parseInt e);
       Some \<lparr>listing_id = 0, donor = user_id u, donorName = user_name u,
             category = (case body_category b of None \<Rightarrow> ''Other''
                         | Some c \<Rightarrow> if c = [] then ''Other'' else c),
             description = d, quantity = q, location = loc,
             imageUrl = (case file of None \<Rightarrow> placeholder | Some f \<Rightarrow> ''/uploads/'' @ f),
             mfgTime = m, expiryTime = x, maxClaims = n, claims = [], createdAt = now\<rparr>
     }"

definition post_food :: "env \<Rightarrow> int \<Rightarrow> user \<Rightarrow> string option \<Rightarrow> req_body \<Rightarrow> state \<Rightarrow> response \<times> state" where
  "post_food e now u file b s0 =
     (let s = upload_single file s0 in
      if user_role u \<noteq> Donor
        then ((403, Message ''Only donors can create listings.''), deleteUpload file s)
      else if falsy (body_description b) \<or> falsy (body_quantity b) \<or> falsy (body_location b)
              \<or> falsy (body_mfgTime b) \<or> falsy (body_expiryTime b) \<or> falsy (body_maxClaims b)
        then ((400, Message ''Please fill out all required fields.''), deleteUpload file s)
      else case new_listing e now u file b of
             None \<Rightarrow> ((500, Message ''Server error''), deleteUpload file s)
           | Some l \<Rightarrow>
              (case save_new l s of
                 None \<Rightarrow> ((500, Message ''Server error''), deleteUpload file s)
               | Some s' \<Rightarrow>
                  ((201, ListingJson (transformImageUrl e (l\<lparr>listing_id := nextId s\<rparr>))), s')))"

subsection \<open>PUT /api/food/:id\<close>

text \<open>
  A time field of the body that is present replaces the stored one after the cast to a
  date; the empty string and a string that is no date make \<^verbatim>\<open>save\<close> fail.
\<close>

definition edit_time :: "env \<Rightarrow> string option \<Rightarrow> int \<Rightarrow> int option" where
  "edit_time e v old =
     (case v of None \<Rightarrow> Some old | Some t \<Rightarrow> if t = [] then None else castDate e t)"

definition edit_maxClaims :: "env \<Rightarrow> string option \<Rightarrow> number \<Rightarrow> number" where
  "edit_maxClaims e v old =
     (case v of None \<Rightarrow> old | Some m \<Rightarrow> (case parseInt e m of None \<Rightarrow> old | Some n \<Rightarrow> n))"

definition edit_field :: "string option \<Rightarrow> string \<Rightarrow> string" where
  "edit_field v old = (case v of None \<Rightarrow> old | Some x \<Rightarrow> x)"

definition edited_listing :: "env \<Rightarrow> string option \<Rightarrow> req_body \<Rightarrow> listing \<Rightarrow> listing option" where
  "edited_listing e file b l =
     (case (edit_time e (body_mfgTime b) (mfgTime l), edit_time e (body_expiryTime b) (expiryTime l)) of
        (Some m, Some x) \<Rightarrow>
          Some (l\<lparr>imageUrl := (case file of None \<Rightarrow> imageUrl l | Some f \<Rightarrow> ''/uploads/'' @ f),
                  category := edit_field (body_category b) (category l),
                  description := edit_field (body_description b) (description l),
                  quantity := edit_field (body_quantity b) (quantity l),
                  location := edit_field (body_location b) (location l),
                  mfgTime := m, expiryTime := x,
                  maxClaims := edit_maxClaims e (body_maxClaims b) (maxClaims l)\<rparr>)
      | _ \<Rightarrow> None)"

definition put_food :: "env \<Rightarrow> user \<Rightarrow> string option \<Rightarrow> param_id \<Rightarrow> req_body \<Rightarrow> state \<Rightarrow> response \<times> state" where
  "put_food e u file pid b s0 =
     (let s = upload_single file s0 in
      case pid of
        Malformed \<Rightarrow> ((500, Message ''Server error''), deleteUpload file s)
      | ObjectId i \<Rightarrow>
         (case findById i s of
            None \<Rightarrow> ((404, Message ''Listing not found''), s)
          | Some l \<Rightarrow>
             if donor l \<noteq> user_id u
               then ((401, Message ''User not authorized to update this listing''), deleteUpload file s)
             else
               (let s1 = (case file of None \<Rightarrow> s | Some f \<Rightarrow> deleteFile (imageUrl l) s)
                in case edited_listing e file b l of
                     None \<Rightarrow> ((500, Message ''Server error''), deleteUpload file s1)
                   | Some updated \<Rightarrow>
                      (case save updated s1 of
                         None \<Rightarrow> ((500, Message ''Server error''), deleteUpload file s1)
                       | Some s' \<Rightarrow> ((200, ListingJson (transformImageUrl e updated)), s')))))"

subsection \<open>GET /api/food\<close>

text \<open>
  The filter of the query, \<^verbatim>\<open>expiryTime: { $gt: new Date() }\<close> and
  \<^verbatim>\<open>$expr: { $lt: [{ $size: "$claims" }, "$maxClaims"] }\<close>, and its sort by ascending
  \<^verbatim>\<open>expiryTime\<close>. Listings with the same expiry time keep their stored order here;
  the database promises no order among them, and no property below depends on it.
\<close>

definition available :: "int \<Rightarrow> listing \<Rightarrow> bool" where
  "available now l = (now < expiryTime l \<and> Finite (int (length (claims l))) < maxClaims l)"

definition available_listings :: "env \<Rightarrow> int \<Rightarrow> state \<Rightarrow> listing list" where
  "available_listings e now s =
     map (transformImageUrl e) (sort_key expiryTime (filter (available now) (listings s)))"

definition get_food :: "env \<Rightarrow> int \<Rightarrow> state \<Rightarrow> response \<times> state" where
  "get_food e now s = ((200, ListingsJson (available_listings e now s)), s)"

subsection \<open>DELETE /api/food/:id\<close>

text \<open>
  The handler calls \<^verbatim>\<open>deleteFile\<close> under the test that \<^verbatim>\<open>deleteFile\<close> makes itself
  (a reference that is not empty and begins with \<^verbatim>\<open>/uploads/\<close>).
\<close>

definition delete_food :: "user \<Rightarrow> param_id \<Rightarrow> state \<Rightarrow> response \<times> state" where
  "delete_food u pid s =
     (case pid of
        Malformed \<Rightarrow> ((500, Message ''Server error''), s)
      | ObjectId i \<Rightarrow>
         (case findById i s of
            None \<Rightarrow> ((404, Message ''Listing not found''), s)
          | Some l \<Rightarrow>
             if donor l \<noteq> user_id u \<and> user_role u \<noteq> Admin
               then ((401, Message ''User not authorized to delete this listing''), s)
             else
               (let s1 = deleteFile (imageUrl l) s
                in ((200, Message ''Listing removed successfully''),
                    s1\<lparr>listings := deleteOne i (listings s1)\<rparr>))))"

subsection \<open>Sequences of requests\<close>

datatype request =
  PostFood user "string option" req_body
  | PutFood user "string option" param_id req_body
  | GetFood user
  | PutClaim user param_id
  | DeleteFood user param_id

text \<open>A request arrives at a time; the handler of its route answers it.\<close>

fun handle :: "env \<Rightarrow> int \<times> request \<Rightarrow> state \<Rightarrow> response \<times> state" where
  "handle e (now, PostFood u file b) s = post_food e now u file b s"
| "handle e (now, PutFood u file pid b) s = put_food e u file pid b s"
| "handle e (now, GetFood u) s = get_food e now s"
| "handle e (now, PutClaim u pid) s = claim_listing e now u pid s"
| "handle e (now, DeleteFood u pid) s = delete_food u pid s"

fun run :: "env \<Rightarrow> (int \<times> request) list \<Rightarrow> state \<Rightarrow> state" where
  "run e [] s = s"
| "run e (r # rs) s = run e rs (snd (handle e r s))"



subsection \<open>Sample data\<close>

definition sample_castDate :: "string \<Rightarrow> int option" where
  "sample_castDate t =
     (if t = ''2029-12-31T00:00:00.000Z'' then Some 1893369600000
      else if t = ''2030-01-01T00:00:00.000Z'' then Some 1893456000000
      else None)"

text \<open>What \<^verbatim>\<open>parseInt\<close> gives on the strings the samples send.\<close>

definition sample_parseInt :: "string \<Rightarrow> number option" where
  "sample_parseInt m =
     (if m = ''1'' then Some (Finite 1)
      else if m = ''2'' then Some (Finite 2)
      else None)"

definition sample_env :: env where
  "sample_env = \<lparr>env_PORT = None, castDate = sample_castDate, parseInt = sample_parseInt\<rparr>"

definition dora :: user where
  "dora = \<lparr>user_id = 1, user_name = ''Dora'', user_role = Donor\<rparr>"

definition alice :: user where
  "alice = \<lparr>user_id = 2, user_name = ''Alice'', user_role = Receiver\<rparr>"

definition bob :: user where
  "bob = \<lparr>user_id = 3, user_name = ''Bob'', user_role = Receiver\<rparr>"

definition root :: user where
  "root = \<lparr>user_id = 4, user_name = ''Admin Sreekruthi'', user_role = Admin\<rparr>"

definition soup_body :: "string \<Rightarrow> req_body" where
  "soup_body m =
     \<lparr>body_description = Some ''Soup'', body_quantity = Some ''2 pots'',
      body_location = Some ''Kitchen'', body_mfgTime = Some ''2029-12-31T00:00:00.000Z'',
      body_expiryTime = Some ''2030-01-01T00:00:00.000Z'', body_maxClaims = Some m,
      body_category = None\<rparr>"


definition alice_claim :: claim where
  "alice_claim = \<lparr>userId = 2, name = ''Alice''\<rparr>"

definition bob_claim :: claim where
  "bob_claim = \<lparr>userId = 3, name = ''Bob''\<rparr>"

text \<open>The listing that \<open>dora\<close> creates from \<open>soup_body\<close> in the empty database.\<close>

definition soup :: "int \<Rightarrow> claim list \<Rightarrow> listing" where
  "soup n cs =
     \<lparr>listing_id = 0, donor = 1, donorName = ''Dora'', category = ''Other'',
      description = ''Soup'', quantity = ''2 pots'', location = ''Kitchen'',
      imageUrl = placeholder, mfgTime = 1893369600000, expiryTime = 1893456000000,
      maxClaims = Finite n, claims = cs, createdAt = 0\<rparr>"

definition soup_state :: "int \<Rightarrow> claim list \<Rightarrow> state" where
  "soup_state n cs = \<lparr>listings = [soup n cs], files = [], nextId = 1\<rparr>"

definition bread :: listing where
  "bread = (soup 2 [bob_claim])\<lparr>listing_id := 1, description := ''Bread'',
              imageUrl := ''/uploads/1-1893369600000.png''\<rparr>"

definition milk :: listing where
  "milk = (soup 1 [])\<lparr>listing_id := 2, description := ''Milk'', expiryTime := 1893400000000\<rparr>"

definition pantry :: state where
  "pantry = \<lparr>listings = [soup 1 [alice_claim], bread, milk],
             files = [''/uploads/1-1893369600000.png''], nextId = 3\<rparr>"



section \<open>Properties\<close>

subsection \<open>Auxiliary facts\<close>

lemma Finite_less_iff: "Finite a < Finite b \<longleftrightarrow> a < b"
  by (auto simp: less_number_def)



lemma findById_upload_single: "findById i (upload_single file s) = findById i s"
  by (simp add: findById_def upload_single_def split: option.splits)

lemma listings_upload_single: "listings (upload_single file s) = listings s"
  by (simp add: upload_single_def split: option.splits)

lemma listings_deleteFile: "listings (deleteFile p s) = listings s"
  by (simp add: deleteFile_def)

lemma listings_deleteUpload: "listings (deleteUpload file s) = listings s"
  by (simp add: deleteUpload_def listings_deleteFile split: option.splits)

lemma findById_deleteFile: "findById i (deleteFile p s) = findById i s"
  by (simp add: findById_def listings_deleteFile)

lemma findById_SomeD: "findById i s = Some l \<Longrightarrow> l \<in> set (listings s) \<and> listing_id l = i"
  unfolding findById_def by (induction "listings s" arbitrary: s) (auto simp: find_Some_iff)

lemma find_replace:
  "find (\<lambda>x. listing_id x = i) ls = Some l \<Longrightarrow> listing_id l' = i \<Longrightarrow>
     find (\<lambda>x. listing_id x = i) (map (\<lambda>x. if listing_id x = i then l' else x) ls) = Some l'"
  by (induction ls) (auto split: if_splits)

lemma findById_save:
  "findById i s = Some l \<Longrightarrow> listing_id l' = i \<Longrightarrow> save l' s = Some s' \<Longrightarrow> findById i s' = Some l'"
  by (auto simp: findById_def save_def find_replace split: if_splits)

lemma set_deleteOne: "set (deleteOne i ls) \<subseteq> set ls"
  by (induction ls) auto

lemma find_SomeD: "find P ls = Some l \<Longrightarrow> l \<in> set ls \<and> P l"
  by (induction ls) (auto split: if_splits)

lemma mset_deleteOne:
  "find (\<lambda>x. listing_id x = i) ls = Some l \<Longrightarrow> mset (deleteOne i ls) = mset ls - {#l#}"
proof (induction ls)
  case Nil
  then show ?case by simp
next
  case (Cons a ls)
  show ?case
  proof (cases "listing_id a = i")
    case True
    with Cons.prems show ?thesis by simp
  next
    case False
    with Cons.prems have f: "find (\<lambda>x. listing_id x = i) ls = Some l" by simp
    then have "l \<in> set ls" "listing_id l = i" using find_SomeD [OF f] by simp_all
    with False Cons.IH [OF f] show ?thesis by auto
  qed
qed

lemma claim_listing_cases:
  "listings (snd (claim_listing e now u pid s)) = listings s
   \<or> (\<exists>i l. pid = ObjectId i \<and> findById i s = Some l \<and> \<not> alreadyClaimed l u
        \<and> Finite (int (length (claims l))) < maxClaims l
        \<and> listings (snd (claim_listing e now u pid s))
            = map (\<lambda>x. if listing_id x = i then l\<lparr>claims := claims l @ [\<lparr>userId = user_id u, name = user_name u\<rparr>]\<rparr> else x) (listings s))"
  by (auto simp: claim_listing_def save_def Let_def dest: findById_SomeD split: param_id.splits option.splits if_splits)

lemma post_food_cases:
  "listings (snd (post_food e now u file b s)) = listings s
   \<or> (\<exists>l. validate l \<and> claims l = [] \<and> listings (snd (post_food e now u file b s)) = listings s @ [l])"
proof (cases "new_listing e now u file b")
  case None
  then show ?thesis
    by (simp add: post_food_def Let_def listings_upload_single listings_deleteUpload)
next
  case (Some l)
  then have "claims l = []"
    by (auto simp: new_listing_def split: bind_splits)
  with Some show ?thesis
    by (auto simp: post_food_def save_new_def Let_def listings_upload_single listings_deleteUpload validate_def)
qed

lemma edited_listing_SomeD:
  "edited_listing e file b l = Some l' \<Longrightarrow>
     claims l' = claims l \<and> listing_id l' = listing_id l \<and> donor l' = donor l
     \<and> maxClaims l' = edit_maxClaims e (body_maxClaims b) (maxClaims l)"
  by (auto simp: edited_listing_def split: option.splits)

lemma save_SomeD:
  "save l' s = Some s' \<Longrightarrow>
     validate l' \<and> listings s' = map (\<lambda>x. if listing_id x = listing_id l' then l' else x) (listings s)"
  by (auto simp: save_def split: if_splits)

lemma put_food_cases:
  "listings (snd (put_food e u file pid b s)) = listings s
   \<or> (\<exists>i l l'. pid = ObjectId i \<and> findById i s = Some l \<and> donor l = user_id u \<and> claims l' = claims l
        \<and> maxClaims l' = edit_maxClaims e (body_maxClaims b) (maxClaims l) \<and> validate l'
        \<and> fst (fst (put_food e u file pid b s)) = 200
        \<and> listings (snd (put_food e u file pid b s)) = map (\<lambda>x. if listing_id x = i then l' else x) (listings s))"
proof (cases pid)
  case Malformed
  then show ?thesis
    by (simp add: put_food_def listings_deleteUpload listings_upload_single)
next
  case (ObjectId i)
  show ?thesis
  proof (cases "findById i s")
    case None
    with ObjectId show ?thesis
      by (simp add: put_food_def findById_upload_single listings_upload_single)
  next
    case (Some l)
    note found = findById_SomeD [OF Some]
    define s1 where "s1 = (case file of None \<Rightarrow> upload_single file s | Some f \<Rightarrow> deleteFile (imageUrl l) (upload_single file s))"
    have ls1: "listings s1 = listings s"
      by (simp add: s1_def listings_deleteFile listings_upload_single split: option.splits)
    show ?thesis
    proof (cases "donor l = user_id u")
      case False
      with ObjectId Some show ?thesis
        by (simp add: put_food_def findById_upload_single listings_upload_single listings_deleteUpload)
    next
      case True
      show ?thesis
      proof (cases "edited_listing e file b l")
        case None
        with ObjectId Some True ls1 show ?thesis
          by (simp add: put_food_def findById_upload_single listings_deleteUpload s1_def [symmetric])
      next
        case upd: (Some l')
        note ed = edited_listing_SomeD [OF upd]
        show ?thesis
        proof (cases "save l' s1")
          case None
          with ObjectId Some True upd ls1 show ?thesis
            by (simp add: put_food_def findById_upload_single listings_deleteUpload s1_def [symmetric])
        next
          case saved: (Some s')
          have res: "snd (put_food e u file pid b s) = s'" "fst (fst (put_food e u file pid b s)) = 200"
            using ObjectId Some True upd saved
            by (simp_all add: put_food_def findById_upload_single s1_def [symmetric])
          from save_SomeD [OF saved] ed found ls1
          have "validate l'"
            and "listings s' = map (\<lambda>x. if listing_id x = i then l' else x) (listings s)"
            by simp_all
          with res ObjectId Some True ed show ?thesis by auto
        qed
      qed
    qed
  qed
qed

lemma delete_food_cases:
  "listings (snd (delete_food u pid s)) = listings s
   \<or> (\<exists>i. pid = ObjectId i \<and> listings (snd (delete_food u pid s)) = deleteOne i (listings s))"
  by (auto simp: delete_food_def Let_def listings_deleteFile split: param_id.splits option.splits if_splits)


lemma handle_cases:
  "listings (snd (handle e r s)) = listings s
   \<or> (\<exists>l. validate l \<and> claims l = [] \<and> listings (snd (handle e r s)) = listings s @ [l])
   \<or> (\<exists>i. listings (snd (handle e r s)) = deleteOne i (listings s))
   \<or> (\<exists>now u file i b l l'. r = (now, PutFood u file (ObjectId i) b) \<and> findById i s = Some l
        \<and> claims l' = claims l \<and> maxClaims l' = edit_maxClaims e (body_maxClaims b) (maxClaims l)
        \<and> fst (fst (put_food e u file (ObjectId i) b s)) = 200
        \<and> listings (snd (handle e r s)) = map (\<lambda>x. if listing_id x = i then l' else x) (listings s))
   \<or> (\<exists>u i l. findById i s = Some l \<and> \<not> alreadyClaimed l u
        \<and> Finite (int (length (claims l))) < maxClaims l
        \<and> listings (snd (handle e r s))
            = map (\<lambda>x. if listing_id x = i
                        then l\<lparr>claims := claims l @ [\<lparr>userId = user_id u, name = user_name u\<rparr>]\<rparr>
                        else x) (listings s))"
proof (cases r)
  case (Pair now req)
  show ?thesis
  proof (cases req)
    case (PostFood u img b)
    with Pair post_food_cases [of e now u img b s] show ?thesis by auto
  next
    case (PutFood u img pid b)
    with Pair put_food_cases [of e u img pid b s] show ?thesis by fastforce
  next
    case (GetFood u)
    with Pair show ?thesis by (simp add: get_food_def)
  next
    case (PutClaim u pid)
    with Pair claim_listing_cases [of e now u pid s] show ?thesis by fastforce
  next
    case (DeleteFood u pid)
    with Pair delete_food_cases [of u pid s] show ?thesis by auto
  qed
qed

lemma alreadyClaimed_iff: "alreadyClaimed l u \<longleftrightarrow> user_id u \<in> set (map userId (claims l))"
  by (force simp: alreadyClaimed_def list_ex_iff)

lemma handle_distinct:
  assumes inv: "\<forall>l\<in>set (listings s). distinct (map userId (claims l))"
  shows "\<forall>l\<in>set (listings (snd (handle e r s))). distinct (map userId (claims l))"
  using handle_cases [of e r s]
proof (elim disjE exE conjE)
  assume "listings (snd (handle e r s)) = listings s"
  with inv show ?thesis by simp
next
  fix l assume "claims l = []" "listings (snd (handle e r s)) = listings s @ [l]"
  with inv show ?thesis by simp
next
  fix i assume "listings (snd (handle e r s)) = deleteOne i (listings s)"
  with inv set_deleteOne [of i "listings s"] show ?thesis by auto
next
  fix i l l'
  assume "findById i s = Some l" "claims l' = claims l"
    and "listings (snd (handle e r s)) = map (\<lambda>x. if listing_id x = i then l' else x) (listings s)"
  with inv findById_SomeD [of i s l] show ?thesis by auto
next
  fix u i l
  assume "findById i s = Some l" "\<not> alreadyClaimed l u"
    and "listings (snd (handle e r s))
            = map (\<lambda>x. if listing_id x = i
                        then l\<lparr>claims := claims l @ [\<lparr>userId = user_id u, name = user_name u\<rparr>]\<rparr>
                        else x) (listings s)"
  with inv findById_SomeD [of i s l] show ?thesis by (auto simp: alreadyClaimed_iff)
qed

lemma run_distinct:
  "\<forall>l\<in>set (listings s). distinct (map userId (claims l)) \<Longrightarrow>
   \<forall>l\<in>set (listings (run e rs s)). distinct (map userId (claims l))"
proof (induction rs arbitrary: s)
  case Nil
  then show ?case by simp
next
  case (Cons r rs)
  from Cons.IH [OF handle_distinct [OF Cons.prems, of e r]] show ?case by simp
qed



lemma claim_listing_found:
  "user_role u = Receiver \<Longrightarrow> findById i s = Some l \<Longrightarrow>
   claim_listing e now u (ObjectId i) s =
     (if expiryTime l < now then ((400, Message ''This listing has expired.''), s)
      else if maxClaims l \<le> Finite (int (length (claims l)))
        then ((400, Message ''This listing is fully claimed.''), s)
      else if alreadyClaimed l u
        then ((400, Message ''You have already claimed this listing.''), s)
      else (case save (l\<lparr>claims := claims l @ [\<lparr>userId = user_id u, name = user_name u\<rparr>]\<rparr>) s of
              None \<Rightarrow> ((500, Message ''Server error''), s)
            | Some s' \<Rightarrow>
                ((200, ClaimedJson ''Listing claimed successfully!''
                   (transformImageUrl e (l\<lparr>claims := claims l @ [\<lparr>userId = user_id u, name = user_name u\<rparr>]\<rparr>))), s')))"
  by (simp add: claim_listing_def Let_def)

lemma transformImageUrl_fields:
  "expiryTime (transformImageUrl e l) = expiryTime l"
  "claims (transformImageUrl e l) = claims l"
  "maxClaims (transformImageUrl e l) = maxClaims l"
  by (simp_all add: transformImageUrl_def)

text \<open>The sample states are states of the server: requests produce them.\<close>

lemma post_soup:
  "post_food sample_env 0 dora None (soup_body ''1'') init
     = ((201, ListingJson (soup 1 [])), soup_state 1 [])"
  by code_simp

lemma run_soup_two_claims:
  "run sample_env
     [(0, PostFood dora None (soup_body ''2'')), (5, PutClaim alice (ObjectId 0)),
      (6, PutClaim bob (ObjectId 0))] init
     = soup_state 2 [alice_claim, bob_claim]"
  by code_simp

subsection \<open>The claim scenario\<close>

text \<open>
  C1, as the handler decides it: on a listing with \<^verbatim>\<open>maxClaims = 1\<close>, no claim yet and
  an expiry time in the future, the first claim of receiver A is answered with status
  200 and the stored claim list is then [A]; the second claim of A is rejected as fully
  claimed, since the test for a full listing comes before the test for a repeated claim;
  the claim of receiver B is rejected as fully claimed too.
\<close>

theorem claim_scenario_maxClaims_1:
  assumes found: "findById i s = Some l" and valid: "validate l"
    and one: "maxClaims l = Finite 1" and empty: "claims l = []"
    and ra: "user_role a = Receiver" and rb: "user_role b = Receiver"
    and t1: "t1 < expiryTime l" and t2: "t2 < expiryTime l" and t3: "t3 < expiryTime l"
  shows "fst (fst (claim_listing e t1 a (ObjectId i) s)) = 200
       \<and> map_option (map userId \<circ> claims) (findById i (snd (claim_listing e t1 a (ObjectId i) s)))
            = Some [user_id a]
       \<and> claim_listing e t2 a (ObjectId i) (snd (claim_listing e t1 a (ObjectId i) s))
            = ((400, Message ''This listing is fully claimed.''), snd (claim_listing e t1 a (ObjectId i) s))
       \<and> claim_listing e t3 b (ObjectId i) (snd (claim_listing e t1 a (ObjectId i) s))
            = ((400, Message ''This listing is fully claimed.''), snd (claim_listing e t1 a (ObjectId i) s))"
proof -
  define l1 where "l1 = l\<lparr>claims := claims l @ [\<lparr>userId = user_id a, name = user_name a\<rparr>]\<rparr>"
  from valid have v1: "validate l1" by (simp add: l1_def validate_def)
  then obtain s1 where saved: "save l1 s = Some s1" by (simp add: save_def)
  from found ra one empty t1 saved
  have first: "claim_listing e t1 a (ObjectId i) s
                 = ((200, ClaimedJson ''Listing claimed successfully!'' (transformImageUrl e l1)), s1)"
    by (simp add: claim_listing_found alreadyClaimed_def l1_def)
  from findById_SomeD [OF found] have "listing_id l1 = i" by (simp add: l1_def)
  from findById_save [OF found this saved] have found1: "findById i s1 = Some l1" .
  have full: "maxClaims l1 \<le> Finite (int (length (claims l1)))" "expiryTime l1 = expiryTime l"
    using one empty by (simp_all add: l1_def)
  have second: "claim_listing e t2 a (ObjectId i) s1 = ((400, Message ''This listing is fully claimed.''), s1)"
    using ra found1 full t2 by (simp add: claim_listing_found)
  have third: "claim_listing e t3 b (ObjectId i) s1 = ((400, Message ''This listing is fully claimed.''), s1)"
    using rb found1 full t3 by (simp add: claim_listing_found)
  have "map userId (claims l1) = [user_id a]" using empty by (simp add: l1_def)
  with first found1 second third show ?thesis by simp
qed


theorem claim_scenario_maxClaims_1_witness:
  "fst (fst (claim_listing sample_env 5 alice (ObjectId 0) (soup_state 1 []))) = 200
   \<and> snd (claim_listing sample_env 5 alice (ObjectId 0) (soup_state 1 [])) = soup_state 1 [alice_claim]
   \<and> claim_listing sample_env 6 alice (ObjectId 0) (soup_state 1 [alice_claim])
        = ((400, Message ''This listing is fully claimed.''), soup_state 1 [alice_claim])
   \<and> claim_listing sample_env 7 bob (ObjectId 0) (soup_state 1 [alice_claim])
        = ((400, Message ''This listing is fully claimed.''), soup_state 1 [alice_claim])"
proof -
  have found: "findById 0 (soup_state 1 []) = Some (soup 1 [])" by code_simp
  have valid: "validate (soup 1 [])" by code_simp
  have one: "maxClaims (soup 1 []) = Finite 1" and empty: "claims (soup 1 []) = []"
    by (simp_all add: soup_def)
  have ra: "user_role alice = Receiver" and rb: "user_role bob = Receiver"
    by (simp_all add: alice_def bob_def)
  have t: "5 < expiryTime (soup 1 [])" "6 < expiryTime (soup 1 [])" "7 < expiryTime (soup 1 [])"
    by (simp_all add: soup_def)
  have s1: "snd (claim_listing sample_env 5 alice (ObjectId 0) (soup_state 1 []))
              = soup_state 1 [alice_claim]"
    by code_simp
  from claim_scenario_maxClaims_1 [OF found valid one empty ra rb t, of sample_env] s1
  show ?thesis by simp
qed

text \<open>
  C1 as the specification words it fails: the second claim of Alice on the one-slot
  listing is answered ``fully claimed'', not ``already claimed''.
\<close>

theorem claim_scenario_second_attempt_full:
  "claim_listing sample_env 5 alice (ObjectId 0) (soup_state 1 [])
     = ((200, ClaimedJson ''Listing claimed successfully!'' (soup 1 [alice_claim])),
        soup_state 1 [alice_claim])
   \<and> claim_listing sample_env 6 alice (ObjectId 0) (soup_state 1 [alice_claim])
     = ((400, Message ''This listing is fully claimed.''), soup_state 1 [alice_claim])
   \<and> claim_listing sample_env 6 alice (ObjectId 0) (soup_state 1 [alice_claim])
     \<noteq> ((400, Message ''You have already claimed this listing.''), soup_state 1 [alice_claim])"
  by code_simp

subsection \<open>Who may claim\<close>

text \<open>
  C7: a requester whose role is not Receiver gets the 403 answer for every route
  parameter, also a malformed one or the id of no listing, in every state, and the
  state is returned as it was.
\<close>

theorem claim_non_receiver_forbidden:
  "user_role u \<noteq> Receiver \<Longrightarrow>
     claim_listing e now u pid s = ((403, Message ''Only receivers can claim food.''), s)"
  by (simp add: claim_listing_def)

theorem claim_non_receiver_forbidden_witness:
  "user_role dora \<noteq> Receiver
   \<and> claim_listing sample_env 100 dora (ObjectId 42) init
       = ((403, Message ''Only receivers can claim food.''), init)"
  using claim_non_receiver_forbidden [of dora sample_env 100 "ObjectId 42" init]
  by (simp add: dora_def)

subsection \<open>The order of the checks\<close>

text \<open>
  The expiry test of the claim handler is \<^verbatim>\<open>expiryTime < now\<close>: for a Receiver and a
  listing that exists, a claim made strictly after \<^verbatim>\<open>expiryTime\<close> is rejected as
  expired, and a claim made at or before it is never rejected as expired.
\<close>

lemma claim_expired_strict:
  assumes "user_role u = Receiver" and "findById i s = Some l"
  shows "(expiryTime l < now \<longrightarrow>
            claim_listing e now u (ObjectId i) s = ((400, Message ''This listing has expired.''), s))
       \<and> (now \<le> expiryTime l \<longrightarrow>
            fst (claim_listing e now u (ObjectId i) s) \<noteq> (400, Message ''This listing has expired.''))"
  using assms by (simp add: claim_listing_found split: option.splits)

text \<open>
  With that test for ``expired'', the three tests run in the order expired, full,
  duplicate.
\<close>

lemma claim_check_order:
  assumes "user_role u = Receiver" and "findById i s = Some l"
  shows "(expiryTime l < now \<longrightarrow>
            claim_listing e now u (ObjectId i) s = ((400, Message ''This listing has expired.''), s))
       \<and> (\<not> expiryTime l < now \<and> maxClaims l \<le> Finite (int (length (claims l))) \<longrightarrow>
            claim_listing e now u (ObjectId i) s = ((400, Message ''This listing is fully claimed.''), s))
       \<and> (\<not> expiryTime l < now \<and> Finite (int (length (claims l))) < maxClaims l \<and> alreadyClaimed l u \<longrightarrow>
            claim_listing e now u (ObjectId i) s
              = ((400, Message ''You have already claimed this listing.''), s))"
  using assms by (auto simp: claim_listing_found dest: leD)

text \<open>
  C3: a claim made at a current time greater than or equal to \<^verbatim>\<open>expiryTime\<close> is to be
  rejected as expired, the instant \<^verbatim>\<open>now = expiryTime\<close> included. At that instant the
  handler does not reject: the claim of the Receiver Alice on the one-slot listing,
  made at the very millisecond of its \<^verbatim>\<open>expiryTime\<close>, is answered with status 200 and
  her claim is stored, while \<^verbatim>\<open>GET /api/food\<close>, asked at the same instant, no longer
  returns the listing.
\<close>

theorem claim_at_expiryTime_succeeds:
  "user_role alice = Receiver
   \<and> findById 0 (soup_state 1 []) = Some (soup 1 [])
   \<and> expiryTime (soup 1 []) \<le> 1893456000000
   \<and> claim_listing sample_env 1893456000000 alice (ObjectId 0) (soup_state 1 [])
     = ((200, ClaimedJson ''Listing claimed successfully!'' (soup 1 [alice_claim])),
        soup_state 1 [alice_claim])
   \<and> available_listings sample_env 1893456000000 (soup_state 1 []) = []"
  by code_simp

text \<open>
  C4: the expiry test is to come first, so that a claim on an expired listing is
  rejected as expired whatever its claims are. At the instant \<^verbatim>\<open>now = expiryTime\<close>,
  where the listing counts as expired, the handler goes on to the next test: the claim
  of the Receiver Bob on the one-slot listing that Alice has claimed is answered
  ``fully claimed'', not ``expired''.
\<close>

theorem claim_at_expiryTime_full:
  "user_role bob = Receiver
   \<and> findById 0 (soup_state 1 [alice_claim]) = Some (soup 1 [alice_claim])
   \<and> expiryTime (soup 1 [alice_claim]) \<le> 1893456000000
   \<and> claim_listing sample_env 1893456000000 bob (ObjectId 0) (soup_state 1 [alice_claim])
     = ((400, Message ''This listing is fully claimed.''), soup_state 1 [alice_claim])
   \<and> claim_listing sample_env 1893456000000 bob (ObjectId 0) (soup_state 1 [alice_claim])
     \<noteq> ((400, Message ''This listing has expired.''), soup_state 1 [alice_claim])"
  by code_simp

subsection \<open>Rejected claims change nothing\<close>

text \<open>
  C10: whatever the requester, the route parameter and the state, a claim request
  that is not answered with status 200 returns the state it was given (the listings, the
  files and the id counter); and an answer with status 200 comes with the state that
  \<^verbatim>\<open>save\<close> produced for the listing with the requester's claim appended.
\<close>

theorem claim_reject_unchanged:
  assumes "claim_listing e now u pid s = (r, s')"
  shows "(fst r \<noteq> 200 \<longrightarrow> s' = s)
       \<and> (fst r = 200 \<longrightarrow>
            (\<exists>i l. pid = ObjectId i \<and> findById i s = Some l
               \<and> save (l\<lparr>claims := claims l @ [\<lparr>userId = user_id u, name = user_name u\<rparr>]\<rparr>) s = Some s'))"
  using assms
  by (auto simp: claim_listing_def Let_def split: if_splits param_id.splits option.splits)

theorem claim_reject_unchanged_witness:
  "claim_listing sample_env 5 bob (ObjectId 0) (soup_state 1 [alice_claim])
     = ((400, Message ''This listing is fully claimed.''), soup_state 1 [alice_claim])
   \<and> findById 0 (soup_state 1 []) = Some (soup 1 [])
   \<and> save ((soup 1 [])\<lparr>claims := claims (soup 1 []) @ [\<lparr>userId = user_id alice, name = user_name alice\<rparr>]\<rparr>)
          (soup_state 1 [])
       = Some (soup_state 1 [alice_claim])"
proof -
  have r1: "claim_listing sample_env 5 bob (ObjectId 0) (soup_state 1 [alice_claim])
              = ((400, Message ''This listing is fully claimed.''), soup_state 1 [alice_claim])"
    by code_simp
  have r2: "claim_listing sample_env 5 alice (ObjectId 0) (soup_state 1 [])
              = ((200, ClaimedJson ''Listing claimed successfully!'' (soup 1 [alice_claim])),
                 soup_state 1 [alice_claim])"
    by code_simp
  have found: "findById 0 (soup_state 1 []) = Some (soup 1 [])" by code_simp
  from claim_reject_unchanged [OF r1] claim_reject_unchanged [OF r2] r1 found
  show ?thesis by auto
qed

subsection \<open>Invariants of the collection\<close>

text \<open>
  C5: after any sequence of requests (create, edit, list, claim, delete) from the
  empty database, no listing has the same receiver twice among its claims: a listing is
  created with no claim, and the claim handler appends a receiver only below the test
  that the receiver is not yet there.
\<close>

theorem claims_distinct:
  "\<forall>l\<in>set (listings (run e rs init)). distinct (map userId (claims l))"
  by (rule run_distinct) (simp add: init_def)

theorem claims_distinct_witness:
  "soup 2 [alice_claim, bob_claim]
     \<in> set (listings (run sample_env
            [(0, PostFood dora None (soup_body ''2'')), (5, PutClaim alice (ObjectId 0)),
             (6, PutClaim alice (ObjectId 0)), (7, PutClaim bob (ObjectId 0))] init))
   \<and> distinct (map userId (claims (soup 2 [alice_claim, bob_claim])))"
proof -
  have m: "soup 2 [alice_claim, bob_claim]
     \<in> set (listings (run sample_env
            [(0, PostFood dora None (soup_body ''2'')), (5, PutClaim alice (ObjectId 0)),
             (6, PutClaim alice (ObjectId 0)), (7, PutClaim bob (ObjectId 0))] init))"
    by code_simp
  from claims_distinct [of sample_env
         "[(0, PostFood dora None (soup_body ''2'')), (5, PutClaim alice (ObjectId 0)),
           (6, PutClaim alice (ObjectId 0)), (7, PutClaim bob (ObjectId 0))]"] m
  show ?thesis by blast
qed




subsection \<open>The listings a receiver can browse\<close>

text \<open>
  C6: the listings that \<^verbatim>\<open>GET /api/food\<close> returns are, as a multiset, the stored
  listings with \<^verbatim>\<open>expiryTime > now\<close> and fewer claims than \<^verbatim>\<open>maxClaims\<close>, each
  passed through \<^verbatim>\<open>transformImageUrl\<close>; they come in ascending order of expiry time;
  and every returned listing has a free slot, so a listing with as many claims as
  \<^verbatim>\<open>maxClaims\<close> is left out even when it expires in the future.
\<close>

theorem available_listings_exact:
  "mset (available_listings e now s)
     = image_mset (transformImageUrl e)
         (filter_mset (\<lambda>l. now < expiryTime l \<and> Finite (int (length (claims l))) < maxClaims l) (mset (listings s)))
   \<and> sorted (map expiryTime (available_listings e now s))
   \<and> (\<forall>r\<in>set (available_listings e now s). now < expiryTime r \<and> Finite (int (length (claims r))) < maxClaims r)"
proof -
  have "map expiryTime (available_listings e now s)
          = map expiryTime (sort_key expiryTime (filter (available now) (listings s)))"
    by (simp add: available_listings_def transformImageUrl_fields o_def)
  then have srt: "sorted (map expiryTime (available_listings e now s))"
    by (simp add: sorted_sort_key)
  have ms: "mset (available_listings e now s)
     = image_mset (transformImageUrl e)
         (filter_mset (\<lambda>l. now < expiryTime l \<and> Finite (int (length (claims l))) < maxClaims l) (mset (listings s)))"
    by (simp add: available_listings_def available_def [abs_def])
  have "\<forall>r\<in>set (available_listings e now s). now < expiryTime r \<and> Finite (int (length (claims r))) < maxClaims r"
    by (auto simp: available_listings_def available_def transformImageUrl_fields)
  with srt ms show ?thesis by blast
qed

theorem available_listings_exact_witness:
  "available_listings sample_env 5 pantry = [milk, transformImageUrl sample_env bread]
   \<and> 5 < expiryTime (soup 1 [alice_claim])
   \<and> Finite (int (length (claims (soup 1 [alice_claim])))) = maxClaims (soup 1 [alice_claim])
   \<and> soup 1 [alice_claim] \<in> set (listings pantry)
   \<and> 5 < expiryTime milk \<and> Finite (int (length (claims milk))) < maxClaims milk
   \<and> sorted (map expiryTime [milk, transformImageUrl sample_env bread])"
proof -
  have r: "available_listings sample_env 5 pantry = [milk, transformImageUrl sample_env bread]"
    by code_simp
  have full: "5 < expiryTime (soup 1 [alice_claim])
     \<and> Finite (int (length (claims (soup 1 [alice_claim])))) = maxClaims (soup 1 [alice_claim])
     \<and> soup 1 [alice_claim] \<in> set (listings pantry)"
    by code_simp
  from available_listings_exact [of sample_env 5 pantry] r full
  show ?thesis by simp
qed

subsection \<open>Who may delete\<close>

text \<open>
  C8: for a listing that exists, the delete request is answered with status 200
  exactly when the requester's id is the listing's donor or the requester is an Admin;
  then one copy of the listing leaves the collection. Every other requester gets the 401
  answer and the state is returned as it was.
\<close>

theorem delete_food_authorization:
  assumes found: "findById i s = Some l"
  shows "(fst (fst (delete_food u (ObjectId i) s)) = 200 \<longleftrightarrow> donor l = user_id u \<or> user_role u = Admin)
       \<and> (donor l = user_id u \<or> user_role u = Admin \<longrightarrow>
            fst (delete_food u (ObjectId i) s) = (200, Message ''Listing removed successfully'')
            \<and> mset (listings (snd (delete_food u (ObjectId i) s))) = mset (listings s) - {#l#})
       \<and> (\<not> (donor l = user_id u \<or> user_role u = Admin) \<longrightarrow>
            delete_food u (ObjectId i) s
              = ((401, Message ''User not authorized to delete this listing''), s))"
proof -
  from found have "find (\<lambda>x. listing_id x = i) (listings s) = Some l" by (simp add: findById_def)
  from mset_deleteOne [OF this] found show ?thesis
    by (auto simp: delete_food_def Let_def listings_deleteFile)
qed

theorem delete_food_authorization_witness:
  "delete_food dora (ObjectId 0) (soup_state 1 [])
     = ((200, Message ''Listing removed successfully''), init\<lparr>nextId := 1\<rparr>)
   \<and> delete_food root (ObjectId 0) (soup_state 1 [])
     = ((200, Message ''Listing removed successfully''), init\<lparr>nextId := 1\<rparr>)
   \<and> delete_food alice (ObjectId 0) (soup_state 1 [])
     = ((401, Message ''User not authorized to delete this listing''), soup_state 1 [])"
proof -
  have found: "findById 0 (soup_state 1 []) = Some (soup 1 [])" by code_simp
  have d: "delete_food dora (ObjectId 0) (soup_state 1 [])
             = ((200, Message ''Listing removed successfully''), init\<lparr>nextId := 1\<rparr>)"
    and r: "delete_food root (ObjectId 0) (soup_state 1 [])
             = ((200, Message ''Listing removed successfully''), init\<lparr>nextId := 1\<rparr>)"
    by code_simp+
  have who: "donor (soup 1 []) \<noteq> user_id alice" "user_role alice \<noteq> Admin"
    by (simp_all add: soup_def alice_def)
  from delete_food_authorization [OF found, of alice] delete_food_authorization [OF found, of dora]
       delete_food_authorization [OF found, of root] who d r
  show ?thesis by simp
qed

subsection \<open>The image address\<close>

text \<open>
  C9: \<^verbatim>\<open>transformImageUrl\<close> puts \<^verbatim>\<open>http://localhost:PORT\<close> in front of an image
  reference that begins with \<^verbatim>\<open>/uploads/\<close> and leaves every other reference as it is;
  the reference changes exactly in the first case, and no other field of the listing
  changes.
\<close>

theorem transformImageUrl_rewrite:
  "(startsWith (imageUrl l) ''/uploads/'' \<longrightarrow>
      imageUrl (transformImageUrl e l) = ''http://localhost:'' @ PORT e @ imageUrl l)
   \<and> (\<not> startsWith (imageUrl l) ''/uploads/'' \<longrightarrow> imageUrl (transformImageUrl e l) = imageUrl l)
   \<and> (imageUrl (transformImageUrl e l) \<noteq> imageUrl l \<longleftrightarrow> startsWith (imageUrl l) ''/uploads/'')
   \<and> transformImageUrl e l = l\<lparr>imageUrl := imageUrl (transformImageUrl e l)\<rparr>"
proof -
  have ne: "''http://localhost:'' @ PORT e @ x \<noteq> x" for x
  proof
    assume "''http://localhost:'' @ PORT e @ x = x"
    then have "length (''http://localhost:'' @ PORT e @ x) = length x" by simp
    then show False by simp
  qed
  have nonempty: "startsWith x ''/uploads/'' \<Longrightarrow> x \<noteq> []" for x
    by (auto simp: startsWith_def)
  show ?thesis
    using ne [of "imageUrl l"] nonempty [of "imageUrl l"]
    by (auto simp: transformImageUrl_def)
qed

theorem transformImageUrl_rewrite_witness:
  "startsWith (imageUrl bread) ''/uploads/''
   \<and> imageUrl (transformImageUrl sample_env bread)
        = ''http://localhost:3001/uploads/1-1893369600000.png''
   \<and> \<not> startsWith (imageUrl milk) ''/uploads/''
   \<and> transformImageUrl sample_env milk = milk"
proof -
  have b: "startsWith (imageUrl bread) ''/uploads/''"
    and m: "\<not> startsWith (imageUrl milk) ''/uploads/''"
    by code_simp+
  have u: "''http://localhost:'' @ PORT sample_env @ imageUrl bread
             = ''http://localhost:3001/uploads/1-1893369600000.png''"
    by code_simp
  from transformImageUrl_rewrite [of bread sample_env] transformImageUrl_rewrite [of milk sample_env]
       b m u
  show ?thesis by (simp add: transformImageUrl_def)
qed

end
